theory Spec2Isabelle
  imports Complex_Main "HOL-Library.Word"
begin

section \<open>Python strings and the process environment\<close>

text \<open>
  A Python \<open>str\<close> is modelled as a \<open>string\<close>; each \<open>char\<close> stands for one character
  of the \<open>str\<close> (code points below 256), so \<open>length\<close> is Python's \<open>len\<close> and \<open>take\<close>
  is a slice \<open>s[:n]\<close>.  \<open>os.environ\<close> is a map from variable names to values.
\<close>

type_synonym environ = "string \<rightharpoonup> string"

definition environ_get :: "environ \<Rightarrow> string \<Rightarrow> string \<Rightarrow> string" where
  \<comment> \<open>\<open>os.environ.get(key, default)\<close>\<close>
  "environ_get env key dflt = (case env key of Some v \<Rightarrow> v | None \<Rightarrow> dflt)"

definition py_isspace :: "char \<Rightarrow> bool" where
  \<comment> \<open>the characters \<open>str.strip()\<close> removes: those with \<open>str.isspace()\<close> true\<close>
  "py_isspace c =
     (let n = (of_char c :: nat)
      in (9 \<le> n \<and> n \<le> 13) \<or> (28 \<le> n \<and> n \<le> 32) \<or> n = 133 \<or> n = 160)"

definition py_strip :: "string \<Rightarrow> string" where
  \<comment> \<open>\<open>s.strip()\<close>\<close>
  "py_strip s = rev (dropWhile py_isspace (rev (dropWhile py_isspace s)))"

definition py_rstrip :: "string \<Rightarrow> string \<Rightarrow> string" where
  \<comment> \<open>\<open>s.rstrip(chars)\<close>\<close>
  "py_rstrip chars s = rev (dropWhile (\<lambda>c. c \<in> set chars) (rev s))"

definition py_endswith :: "string \<Rightarrow> string \<Rightarrow> bool" where
  \<comment> \<open>\<open>s.endswith(suffix)\<close>\<close>
  "py_endswith s suffix =
     (length suffix \<le> length s \<and> drop (length s - length suffix) s = suffix)"

section \<open>Endpoint resolution\<close>

definition DEFAULT_TRACES_ENDPOINT :: string where
  "DEFAULT_TRACES_ENDPOINT = ''http://localhost:4318/v1/traces''"

definition get_otlp_endpoint :: "environ \<Rightarrow> string" where
  \<comment> \<open>\<open>get_otlp_endpoint\<close> of langgraph/otel_export.py\<close>
  "get_otlp_endpoint env =
     (let endpoint = py_strip (environ_get env ''OTEL_EXPORTER_OTLP_TRACES_ENDPOINT'' '''')
      in if endpoint \<noteq> [] then endpoint
         else
           let base = py_rstrip ''/''
                        (py_strip (environ_get env ''OTEL_EXPORTER_OTLP_ENDPOINT'' ''''))
           in if base = [] then DEFAULT_TRACES_ENDPOINT
              else if py_endswith base ''v1/traces'' then base
              else base @ ''/v1/traces'')"

definition get_endpoint :: "environ \<Rightarrow> string" where
  \<comment> \<open>\<open>_get_endpoint\<close> of otel_llm_log.py\<close>
  "get_endpoint env =
     (let endpoint = py_strip (environ_get env ''OTEL_EXPORTER_OTLP_TRACES_ENDPOINT'' '''')
      in if endpoint \<noteq> [] then endpoint
         else
           let base = py_rstrip ''/''
                        (py_strip (environ_get env ''OTEL_EXPORTER_OTLP_ENDPOINT'' ''''))
           in if base = [] then DEFAULT_TRACES_ENDPOINT
              else if py_endswith base ''v1/traces'' then base
              else base @ ''/v1/traces'')"

text \<open>
  The resolution order as the specification words it: the explicit traces value as it
  is when non-empty, else the generic value without trailing slashes followed by
  \<open>/v1/traces\<close> when non-empty, else the local default.
\<close>

definition spec_endpoint :: "environ \<Rightarrow> string" where
  "spec_endpoint env =
     (let explicit = environ_get env ''OTEL_EXPORTER_OTLP_TRACES_ENDPOINT'' '''';
          generic = environ_get env ''OTEL_EXPORTER_OTLP_ENDPOINT'' ''''
      in if explicit \<noteq> [] then explicit
         else if generic \<noteq> [] then py_rstrip ''/'' generic @ ''/v1/traces''
         else DEFAULT_TRACES_ENDPOINT)"

section \<open>Header resolution\<close>

text \<open>
  \<open>parse_env_headers\<close> belongs to the OpenTelemetry library, so both functions take it
  as a parameter; a header dictionary is a map from names to values.
\<close>

type_synonym headers = "string \<rightharpoonup> string"

definition get_otlp_headers :: "(string \<Rightarrow> headers) \<Rightarrow> environ \<Rightarrow> headers" where
  \<comment> \<open>\<open>get_otlp_headers\<close> of langgraph/otel_export.py\<close>
  "get_otlp_headers parse_env_headers env =
     (let s = environ_get env ''OTEL_EXPORTER_OTLP_TRACES_HEADERS''
                (environ_get env ''OTEL_EXPORTER_OTLP_HEADERS'' '''')
      in if s \<noteq> [] then parse_env_headers s else Map.empty)"

definition get_headers :: "(string \<Rightarrow> headers) \<Rightarrow> environ \<Rightarrow> headers" where
  \<comment> \<open>\<open>_get_headers\<close> of otel_llm_log.py\<close>
  "get_headers parse_env_headers env =
     (let s = environ_get env ''OTEL_EXPORTER_OTLP_TRACES_HEADERS''
                (environ_get env ''OTEL_EXPORTER_OTLP_HEADERS'' '''')
      in if s \<noteq> [] then parse_env_headers s else Map.empty)"

text \<open>
  The header string the specification speaks of: the traces-specific variable when it
  is set, else the generic one, else the empty string.
\<close>

definition header_string :: "environ \<Rightarrow> string" where
  "header_string env =
     (case env ''OTEL_EXPORTER_OTLP_TRACES_HEADERS'' of
        Some t \<Rightarrow> t
      | None \<Rightarrow> (case env ''OTEL_EXPORTER_OTLP_HEADERS'' of Some g \<Rightarrow> g | None \<Rightarrow> []))"

definition unset_or_empty :: "environ \<Rightarrow> string \<Rightarrow> bool" where
  "unset_or_empty env key = (case env key of None \<Rightarrow> True | Some v \<Rightarrow> v = [])"

definition spec_headers :: "(string \<Rightarrow> headers) \<Rightarrow> environ \<Rightarrow> headers" where
  "spec_headers parse env =
     (if unset_or_empty env ''OTEL_EXPORTER_OTLP_TRACES_HEADERS''
         \<and> unset_or_empty env ''OTEL_EXPORTER_OTLP_HEADERS''
      then Map.empty
      else parse (header_string env))"

text \<open>
  A small parser of comma-separated \<open>key=value\<close> pairs, used to instantiate the
  parameter in examples: entries without \<open>=\<close> are skipped and a later pair overrides an
  earlier one with the same key, as assignments into a dictionary do.
\<close>

fun split_on :: "char \<Rightarrow> string \<Rightarrow> string list" where
  "split_on c [] = [[]]"
| "split_on c (x # xs) =
     (if x = c then [] # split_on c xs
      else (case split_on c xs of [] \<Rightarrow> [[x]] | w # ws \<Rightarrow> (x # w) # ws))"

definition key_value :: "string \<Rightarrow> (string \<times> string) option" where
  "key_value s =
     (if CHR ''='' \<in> set s
      then Some (takeWhile (\<lambda>c. c \<noteq> CHR ''='') s, tl (dropWhile (\<lambda>c. c \<noteq> CHR ''='') s))
      else None)"

definition parse_pairs :: "string \<Rightarrow> headers" where
  "parse_pairs s = map_of (rev (List.map_filter key_value (split_on CHR '','' s)))"

section \<open>Exceptions, responses and the network\<close>

text \<open>
  An exception value carries the answers to the \<open>isinstance\<close> tests the handlers of
  the source perform (\<open>except Timeout\<close>, \<open>except ConnectionError\<close>,
  \<open>except RequestException\<close>, \<open>except Exception\<close>) and its text \<open>str(e)\<close>.
\<close>

record exn =
  is_Exception :: bool
  is_RequestException :: bool
  is_Timeout :: bool
  is_ConnectionError :: bool
  message :: string

text \<open>The attributes of a \<open>requests\<close> response that the source reads (\<open>text_of\<close> is \<open>resp.text\<close>).\<close>

record response =
  ok :: bool
  status_code :: int
  reason :: string
  text_of :: string

type_synonym bytes = "8 word list"

text \<open>The keyword arguments of one \<open>session.post\<close> call.\<close>

record request =
  url :: string
  data :: bytes
  verify :: bool
  timeout :: real
  cert :: "string option"

text \<open>
  The network answers the \<open>n\<close>-th request of a session with a response or by raising.
  The client state keeps every request posted so far and the records given to the
  module's logger.
\<close>

type_synonym network = "nat \<Rightarrow> request \<Rightarrow> exn + response"

datatype export_result = SUCCESS | FAILURE

datatype log_level = WARNING | ERROR

datatype log_arg =
    ArgStr string
  | ArgInt int
  | ArgReal real
  | ArgExn exn
  | ArgResult "export_result option"

record log_record =
  level :: log_level
  fmt :: string
  args :: "log_arg list"
  exc_info :: bool

record client_state =
  sent :: "request list"
  logged :: "log_record list"

definition post :: "network \<Rightarrow> request \<Rightarrow> client_state \<Rightarrow> (exn + response) \<times> client_state" where
  \<comment> \<open>\<open>self._session.post(...)\<close>\<close>
  "post net rq st = (net (length (sent st)) rq, st\<lparr>sent := sent st @ [rq]\<rparr>)"

definition logger_error :: "string \<Rightarrow> log_arg list \<Rightarrow> bool \<Rightarrow> client_state \<Rightarrow> client_state" where
  \<comment> \<open>\<open>logger.error(fmt, *args, exc_info=...)\<close>\<close>
  "logger_error f as ei st =
     st\<lparr>logged := logged st @ [\<lparr>level = ERROR, fmt = f, args = as, exc_info = ei\<rparr>]\<rparr>"

definition new_requests :: "client_state \<Rightarrow> client_state \<Rightarrow> request list" where
  \<comment> \<open>the requests posted between two states\<close>
  "new_requests st st' = drop (length (sent st)) (sent st')"

definition new_records :: "client_state \<Rightarrow> client_state \<Rightarrow> log_record list" where
  \<comment> \<open>the records logged between two states\<close>
  "new_records st st' = drop (length (logged st)) (logged st')"

section \<open>The exporter without certificate verification\<close>

text \<open>
  \<open>Compression\<close> is the library's enumeration.  \<open>gzip.GzipFile\<close> and \<open>zlib.compress\<close>
  are library functions and are taken as parameters.
\<close>

datatype compression = Deflate | Gzip | NoCompression

record codec =
  gzip_write :: "bytes \<Rightarrow> bytes"
  zlib_compress :: "bytes \<Rightarrow> bytes"

text \<open>
  The attributes of \<open>OTLPSpanExporter\<close> that \<open>_export\<close> reads.  The library's
  constructor derives compression, timeout and client certificate from its defaults
  and the environment; they are the \<open>settings\<close> of the factory below.
\<close>

record settings =
  compression :: compression
  default_timeout :: real
  client_cert :: "string option"

record exporter = settings +
  endpoint :: string
  session_headers :: "headers option"

definition or_None :: "headers option \<Rightarrow> headers option" where
  \<comment> \<open>\<open>headers or None\<close>: an empty dictionary is falsy\<close>
  "or_None h = (case h of None \<Rightarrow> None | Some m \<Rightarrow> if m = Map.empty then None else Some m)"

definition create_otlp_exporter_no_ssl :: "settings \<Rightarrow> string \<Rightarrow> headers option \<Rightarrow> exporter" where
  \<comment> \<open>\<open>OTLPSpanExporterNoSSL(endpoint=endpoint, headers=headers or None)\<close>, both files\<close>
  "create_otlp_exporter_no_ssl lib ep hs =
     \<lparr>compression = compression lib, default_timeout = default_timeout lib,
      client_cert = client_cert lib, endpoint = ep, session_headers = or_None hs\<rparr>"

definition compressed :: "codec \<Rightarrow> exporter \<Rightarrow> bytes \<Rightarrow> bytes" where
  \<comment> \<open>the first statements of \<open>_export\<close>, the same in both files\<close>
  "compressed cd ex serialized_data =
     (if compression ex = Gzip then gzip_write cd serialized_data
      else if compression ex = Deflate then zlib_compress cd serialized_data
      else serialized_data)"

definition the_request :: "codec \<Rightarrow> exporter \<Rightarrow> bytes \<Rightarrow> real option \<Rightarrow> request" where
  \<comment> \<open>the arguments both files pass to \<open>session.post\<close>\<close>
  "the_request cd ex serialized_data timeout_sec =
     \<lparr>url = endpoint ex,
      data = compressed cd ex serialized_data,
      verify = False,
      timeout = (case timeout_sec of None \<Rightarrow> default_timeout ex | Some t \<Rightarrow> t),
      cert = client_cert ex\<rparr>"

definition NoSSL_export ::
  "codec \<Rightarrow> network \<Rightarrow> exporter \<Rightarrow> bytes \<Rightarrow> real option \<Rightarrow> client_state
     \<Rightarrow> (exn + response) \<times> client_state" where
  \<comment> \<open>\<open>OTLPSpanExporterNoSSL._export\<close> of otel_llm_log.py\<close>
  "NoSSL_export cd net ex serialized_data timeout_sec st =
     (let rq = the_request cd ex serialized_data timeout_sec
      in case post net rq st of
           (Inr resp, st1) \<Rightarrow> (Inr resp, st1)
         | (Inl e, st1) \<Rightarrow>
             if is_ConnectionError e then post net rq st1 else (Inl e, st1))"

definition body_preview :: "string \<Rightarrow> string" where
  "body_preview t =
     (if t \<noteq> [] \<and> length t > 1000 then take 1000 t @ ''...''
      else (if t \<noteq> [] then t else ''(empty)''))"

definition langgraph_NoSSL_export ::
  "codec \<Rightarrow> network \<Rightarrow> exporter \<Rightarrow> bytes \<Rightarrow> real option \<Rightarrow> client_state
     \<Rightarrow> (exn + response) \<times> client_state" where
  \<comment> \<open>\<open>OTLPSpanExporterNoSSL._export\<close> of langgraph/otel_export.py\<close>
  "langgraph_NoSSL_export cd net ex serialized_data timeout_sec st =
     (let rq = the_request cd ex serialized_data timeout_sec
      in case post net rq st of
           (Inr resp, st1) \<Rightarrow>
             (Inr resp,
              if \<not> ok resp
              then logger_error
                     ''OTLP trace export HTTP error: status=%s reason=%s url=%s request_content_length=%s response_body=%s''
                     [ArgInt (status_code resp), ArgStr (reason resp), ArgStr (endpoint ex),
                      ArgInt (int (length (data rq))), ArgStr (body_preview (text_of resp))]
                     False st1
              else st1)
         | (Inl e, st1) \<Rightarrow>
             (Inl e,
              if is_Timeout e
              then logger_error ''OTLP trace export timeout: url=%s timeout_sec=%s error=%s''
                     [ArgStr (endpoint ex), ArgReal (timeout rq), ArgExn e] True st1
              else if is_ConnectionError e
              then logger_error ''OTLP trace export connection error: url=%s error=%s''
                     [ArgStr (endpoint ex), ArgExn e] True st1
              else if is_RequestException e
              then logger_error ''OTLP trace export request error: url=%s error=%s''
                     [ArgStr (endpoint ex), ArgExn e] True st1
              else if is_Exception e
              then logger_error ''OTLP trace export unexpected error: url=%s error=%s''
                     [ArgStr (endpoint ex), ArgExn e] True st1
              else st1))"

section \<open>The result-tracking wrappers\<close>

text \<open>
  The wrapped exporter is any object with \<open>export\<close>, \<open>shutdown\<close> and \<open>force_flush\<close>:
  three operations on a state of its own, each returning a value or raising.
\<close>

record ('s, 'span) span_exporter =
  inner_export :: "'span list \<Rightarrow> 's \<Rightarrow> (exn + export_result) \<times> 's"
  inner_shutdown :: "'s \<Rightarrow> (exn + unit) \<times> 's"
  inner_force_flush :: "int \<Rightarrow> 's \<Rightarrow> (exn + bool) \<times> 's"

text \<open>
  The attributes of \<open>TrackingSpanExporter\<close> (\<open>inner\<close> is its \<open>_delegate\<close>) and of
  \<open>LoggingSpanExporter\<close> (\<open>_inner\<close>), which also writes to the module's logger.
\<close>

record 's tracking =
  inner :: 's
  last_result :: "export_result option"
  last_error :: "exn option"

record 's logging = "'s tracking" +
  wrapper_log :: "log_record list"

definition TrackingSpanExporter :: "'s \<Rightarrow> 's tracking" where
  \<comment> \<open>\<open>TrackingSpanExporter.__init__\<close>\<close>
  "TrackingSpanExporter d = \<lparr>inner = d, last_result = None, last_error = None\<rparr>"

definition tracking_export ::
  "('s, 'span) span_exporter \<Rightarrow> 'span list \<Rightarrow> 's tracking
     \<Rightarrow> (exn + export_result) \<times> 's tracking" where
  \<comment> \<open>\<open>TrackingSpanExporter.export\<close>\<close>
  "tracking_export ops spans t =
     (let t1 = t\<lparr>last_error := None\<rparr>
      in case inner_export ops spans (inner t1) of
           (Inr r, s') \<Rightarrow> (Inr r, t1\<lparr>inner := s', last_result := Some r\<rparr>)
         | (Inl e, s') \<Rightarrow>
             if is_Exception e
             then (Inl e, t1\<lparr>inner := s', last_error := Some e, last_result := Some FAILURE\<rparr>)
             else (Inl e, t1\<lparr>inner := s'\<rparr>))"

definition tracking_shutdown ::
  "('s, 'span) span_exporter \<Rightarrow> 's tracking \<Rightarrow> (exn + unit) \<times> 's tracking" where
  \<comment> \<open>\<open>TrackingSpanExporter.shutdown\<close>\<close>
  "tracking_shutdown ops t =
     (case inner_shutdown ops (inner t) of
        (Inr u, s') \<Rightarrow> (Inr (), t\<lparr>inner := s'\<rparr>)
      | (Inl e, s') \<Rightarrow> (Inl e, t\<lparr>inner := s'\<rparr>))"

definition tracking_force_flush ::
  "('s, 'span) span_exporter \<Rightarrow> int option \<Rightarrow> 's tracking \<Rightarrow> (exn + bool) \<times> 's tracking" where
  \<comment> \<open>\<open>TrackingSpanExporter.force_flush\<close>; \<open>None\<close> is a call without the argument\<close>
  "tracking_force_flush ops timeout_millis t =
     (case inner_force_flush ops (case timeout_millis of None \<Rightarrow> 30000 | Some m \<Rightarrow> m) (inner t) of
        (r, s') \<Rightarrow> (r, t\<lparr>inner := s'\<rparr>))"

definition LoggingSpanExporter :: "'s \<Rightarrow> 's logging" where
  \<comment> \<open>\<open>LoggingSpanExporter.__init__\<close>; the log starts empty\<close>
  "LoggingSpanExporter d =
     \<lparr>inner = d, last_result = None, last_error = None, wrapper_log = []\<rparr>"

definition logging_export ::
  "('s, 'span) span_exporter \<Rightarrow> 'span list \<Rightarrow> 's logging
     \<Rightarrow> (exn + export_result) \<times> 's logging" where
  \<comment> \<open>\<open>LoggingSpanExporter.export\<close>\<close>
  "logging_export ops spans t =
     (let t1 = t\<lparr>last_error := None\<rparr>
      in case inner_export ops spans (inner t1) of
           (Inr r, s') \<Rightarrow>
             (let t2 = t1\<lparr>inner := s', last_result := Some r\<rparr>
              in (Inr r,
                  if r \<noteq> SUCCESS
                  then t2\<lparr>wrapper_log := wrapper_log t2 @
                          [\<lparr>level = WARNING,
                            fmt = ''OTLP span export returned failure: result=%s span_count=%s'',
                            args = [ArgResult (last_result t2), ArgInt (int (length spans))],
                            exc_info = False\<rparr>]\<rparr>
                  else t2))
         | (Inl e, s') \<Rightarrow>
             if is_Exception e
             then (Inl e,
                   t1\<lparr>inner := s', last_error := Some e,
                      wrapper_log := wrapper_log t1 @
                        [\<lparr>level = ERROR, fmt = ''OTLP span export raised: %s'',
                          args = [ArgExn e], exc_info = True\<rparr>]\<rparr>)
             else (Inl e, t1\<lparr>inner := s'\<rparr>))"

definition logging_shutdown ::
  "('s, 'span) span_exporter \<Rightarrow> 's logging \<Rightarrow> (exn + unit) \<times> 's logging" where
  \<comment> \<open>\<open>LoggingSpanExporter.shutdown\<close>\<close>
  "logging_shutdown ops t =
     (case inner_shutdown ops (inner t) of
        (Inr u, s') \<Rightarrow> (Inr (), t\<lparr>inner := s'\<rparr>)
      | (Inl e, s') \<Rightarrow> (Inl e, t\<lparr>inner := s'\<rparr>))"

definition logging_force_flush ::
  "('s, 'span) span_exporter \<Rightarrow> int option \<Rightarrow> 's logging \<Rightarrow> (exn + bool) \<times> 's logging" where
  \<comment> \<open>\<open>LoggingSpanExporter.force_flush\<close>; \<open>None\<close> is a call without the argument\<close>
  "logging_force_flush ops timeout_millis t =
     (case inner_force_flush ops (case timeout_millis of None \<Rightarrow> 30000 | Some m \<Rightarrow> m) (inner t) of
        (r, s') \<Rightarrow> (r, t\<lparr>inner := s'\<rparr>))"

section \<open>The end of the host process\<close>

text \<open>
  What \<open>main\<close> prints and the status the process exits with.  \<open>raised\<close> is the
  exception, if any, that the \<open>try\<close> body raised before the recorded outcome is read
  (span creation, \<open>force_flush\<close>, \<open>provider.shutdown()\<close>); \<open>sys.exit(1)\<close> raises
  \<open>SystemExit\<close>, which \<open>except Exception\<close> does not catch, and a \<open>main\<close> that returns
  ends the process with status 0.  An exception that is no \<open>Exception\<close> leaves \<open>main\<close>.
\<close>

record proc_result =
  stdout :: "string list"
  exit_status :: int

definition main_llm_log ::
  "string \<Rightarrow> exn option \<Rightarrow> ('s, 'm) tracking_scheme \<Rightarrow> exn + proc_result" where
  \<comment> \<open>\<open>main\<close> of otel_llm_log.py from \<open>provider.shutdown()\<close> on\<close>
  "main_llm_log ep raised tracking =
     (case raised of
        Some e \<Rightarrow>
          if is_Exception e
          then Inr \<lparr>stdout = [''Failed to create or export spans: '' @ message e],
                    exit_status = 1\<rparr>
          else Inl e
      | None \<Rightarrow>
          if last_result tracking = Some SUCCESS
          then Inr \<lparr>stdout = [''GenAI spans exported (chat + execute_tool) to '' @ ep
                                @ ''. Service: otel-llm-log.''],
                    exit_status = 0\<rparr>
          else Inr \<lparr>stdout = [''Export failed (SSL or network error). Check logs above. ''
                                @ ''Endpoint: '' @ ep]
                             @ (case last_error tracking of
                                  Some e \<Rightarrow> [''Error: '' @ message e]
                                | None \<Rightarrow> []),
                    exit_status = 1\<rparr>)"

definition main_agent_otel ::
  "string \<Rightarrow> exn option \<Rightarrow> ('s, 'm) tracking_scheme \<Rightarrow> exn + proc_result" where
  \<comment> \<open>\<open>main\<close> of langgraph/agent_otel.py from \<open>provider.shutdown()\<close> on\<close>
  "main_agent_otel ep raised exporter =
     (case raised of
        Some e \<Rightarrow>
          if is_Exception e
          then Inr \<lparr>stdout = [''Failed: '' @ message e], exit_status = 1\<rparr>
          else Inl e
      | None \<Rightarrow>
          if last_result exporter = Some SUCCESS
          then Inr \<lparr>stdout = [''LangChain/LangGraph spans exported to '' @ ep
                                @ ''. Service: langgraph-agent-otel.''],
                    exit_status = 0\<rparr>
          else Inr \<lparr>stdout = [''Export may have failed. Endpoint: '' @ ep
                                @ ''. Check logs above for OTLP errors.'']
                             @ (case last_error exporter of
                                  Some e \<Rightarrow> [''Last export error: '' @ message e]
                                | None \<Rightarrow> []),
                    exit_status = 1\<rparr>)"

section \<open>Sequences of calls and the invariant of the tracking wrapper\<close>

datatype 'span call = Export "'span list" | Shutdown | Force_flush "int option"

definition tracking_call ::
  "('s, 'span) span_exporter \<Rightarrow> 's tracking \<Rightarrow> 'span call \<Rightarrow> 's tracking" where
  "tracking_call ops t c =
     (case c of
        Export spans \<Rightarrow> snd (tracking_export ops spans t)
      | Shutdown \<Rightarrow> snd (tracking_shutdown ops t)
      | Force_flush m \<Rightarrow> snd (tracking_force_flush ops m t))"

definition tracking_run ::
  "('s, 'span) span_exporter \<Rightarrow> 'span call list \<Rightarrow> 's tracking \<Rightarrow> 's tracking" where
  \<comment> \<open>the wrapper after a sequence of calls, whether they return or raise\<close>
  "tracking_run ops cs t = foldl (tracking_call ops) t cs"

definition failure_recorded :: "'s tracking \<Rightarrow> bool" where
  \<comment> \<open>a recorded error comes with the outcome \<open>FAILURE\<close>\<close>
  "failure_recorded t = (last_error t = None \<or> last_result t = Some FAILURE)"

section \<open>Example values\<close>

definition no_traffic :: client_state where
  "no_traffic = \<lparr>sent = [], logged = []\<rparr>"

definition connection_refused :: exn where
  "connection_refused =
     \<lparr>is_Exception = True, is_RequestException = True, is_Timeout = False,
      is_ConnectionError = True, message = ''Connection refused''\<rparr>"

definition read_timeout :: exn where
  "read_timeout =
     \<lparr>is_Exception = True, is_RequestException = True, is_Timeout = True,
      is_ConnectionError = False, message = ''Read timed out''\<rparr>"

definition connect_timeout :: exn where
  \<comment> \<open>\<open>requests.exceptions.ConnectTimeout\<close> is a \<open>ConnectionError\<close> and a \<open>Timeout\<close>\<close>
  "connect_timeout =
     \<lparr>is_Exception = True, is_RequestException = True, is_Timeout = True,
      is_ConnectionError = True, message = ''Connection timed out''\<rparr>"

definition keyboard_interrupt :: exn where
  "keyboard_interrupt =
     \<lparr>is_Exception = False, is_RequestException = False, is_Timeout = False,
      is_ConnectionError = False, message = ''''\<rparr>"

definition accepted :: response where
  "accepted = \<lparr>ok = True, status_code = 200, reason = ''OK'', text_of = ''''\<rparr>"

definition unavailable :: response where
  "unavailable =
     \<lparr>ok = False, status_code = 503, reason = ''Service Unavailable'',
      text_of = replicate 1001 (CHR ''x'')\<rparr>"

definition always :: "exn + response \<Rightarrow> network" where
  \<comment> \<open>a network that answers every request alike\<close>
  "always r n rq = r"

definition replies :: "(exn + response) list \<Rightarrow> network" where
  \<comment> \<open>a network that answers the first requests from a list and refuses the rest\<close>
  "replies rs n rq = (if n < length rs then rs ! n else Inl connection_refused)"

definition library_settings :: settings where
  "library_settings = \<lparr>compression = NoCompression, default_timeout = 10, client_cert = None\<rparr>"

definition framing :: codec where
  \<comment> \<open>a stand-in for the two compressors: each only puts a header before the payload\<close>
  "framing = \<lparr>gzip_write = (\<lambda>b. [0x1f, 0x8b] @ b), zlib_compress = (\<lambda>b. [0x78] @ b)\<rparr>"

definition unframe_gzip :: "bytes \<Rightarrow> bytes option" where
  "unframe_gzip b = (if take 2 b = [0x1f, 0x8b] then Some (drop 2 b) else None)"

definition unframe_zlib :: "bytes \<Rightarrow> bytes option" where
  "unframe_zlib b = (if take 1 b = [0x78] then Some (drop 1 b) else None)"

definition scripted :: "((exn + export_result) list, 'span) span_exporter" where
  \<comment> \<open>an exporter whose \<open>export\<close> answers from a list of prepared outcomes\<close>
  "scripted =
     \<lparr>inner_export = (\<lambda>spans s. case s of [] \<Rightarrow> (Inr SUCCESS, []) | r # rs \<Rightarrow> (r, rs)),
      inner_shutdown = (\<lambda>s. (Inr (), s)),
      inner_force_flush = (\<lambda>m s. (Inr True, s))\<rparr>"

definition local_exporter :: exporter where
  \<comment> \<open>the exporter \<open>main\<close> builds when the environment sets nothing\<close>
  "local_exporter = create_otlp_exporter_no_ssl library_settings DEFAULT_TRACES_ENDPOINT None"

section \<open>Properties\<close>

subsection \<open>Endpoint resolution\<close>

lemma py_endswith_append: "py_endswith (b @ s) s"
  by (simp add: py_endswith_def)

lemma get_endpoint_same: "get_endpoint env = get_otlp_endpoint env"
  by (simp add: get_endpoint_def get_otlp_endpoint_def)

lemma get_otlp_endpoint_nonempty: "get_otlp_endpoint env \<noteq> []"
  by (simp add: get_otlp_endpoint_def Let_def DEFAULT_TRACES_ENDPOINT_def)

lemma get_otlp_endpoint_suffix:
  assumes blank: "py_strip (environ_get env ''OTEL_EXPORTER_OTLP_TRACES_ENDPOINT'' '''') = []"
  shows "py_endswith (get_otlp_endpoint env) ''v1/traces''"
proof -
  have dflt: "py_endswith DEFAULT_TRACES_ENDPOINT ''v1/traces''"
    by (simp add: DEFAULT_TRACES_ENDPOINT_def py_endswith_def)
  have app: "\<And>b. py_endswith (b @ ''/v1/traces'') ''v1/traces''"
    using py_endswith_append [of _ "''v1/traces''"]
    by (metis append.assoc append_Cons append_Nil)
  show ?thesis
    using blank dflt app by (simp add: get_otlp_endpoint_def Let_def)
qed

lemma get_otlp_endpoint_agrees:
  assumes "py_strip t = t" and "py_strip g = g"
    and "g \<noteq> [] \<longrightarrow> py_rstrip ''/'' g \<noteq> [] \<and> \<not> py_endswith (py_rstrip ''/'' g) ''v1/traces''"
    and "t = environ_get env ''OTEL_EXPORTER_OTLP_TRACES_ENDPOINT'' ''''"
    and "g = environ_get env ''OTEL_EXPORTER_OTLP_ENDPOINT'' ''''"
  shows "get_otlp_endpoint env = spec_endpoint env"
proof (cases "g = []")
  case True
  then have "py_rstrip ''/'' g = []" by (simp add: py_rstrip_def)
  with True assms show ?thesis
    by (simp add: get_otlp_endpoint_def spec_endpoint_def Let_def)
next
  case False
  with assms show ?thesis
    by (simp add: get_otlp_endpoint_def spec_endpoint_def Let_def)
qed

text \<open>
  Claim C6, as the code has it.  Both files resolve the endpoint alike.  The explicit
  traces value is used with its surrounding whitespace stripped, when it is non-empty
  after stripping.  Otherwise the generic value is stripped of surrounding whitespace and
  then of trailing slashes: when nothing is left the local default is used, when it
  already ends with \<open>v1/traces\<close> it is used unchanged, and otherwise \<open>/v1/traces\<close> is
  appended.  Without an explicit value the endpoint always ends with \<open>v1/traces\<close>, and
  it is never empty.  The resolution order of the specification is met whenever the two
  values carry no surrounding whitespace and the generic value, if any, neither consists
  of slashes only nor already ends with \<open>v1/traces\<close>.
\<close>

theorem endpoint_resolution:
  "get_endpoint env = get_otlp_endpoint env \<and>
   (let explicit = py_strip (environ_get env ''OTEL_EXPORTER_OTLP_TRACES_ENDPOINT'' '''');
        base = py_rstrip ''/'' (py_strip (environ_get env ''OTEL_EXPORTER_OTLP_ENDPOINT'' ''''))
    in (explicit \<noteq> [] \<longrightarrow> get_otlp_endpoint env = explicit) \<and>
       (explicit = [] \<and> base = [] \<longrightarrow> get_otlp_endpoint env = DEFAULT_TRACES_ENDPOINT) \<and>
       (explicit = [] \<and> base \<noteq> [] \<and> py_endswith base ''v1/traces''
          \<longrightarrow> get_otlp_endpoint env = base) \<and>
       (explicit = [] \<and> base \<noteq> [] \<and> \<not> py_endswith base ''v1/traces''
          \<longrightarrow> get_otlp_endpoint env = base @ ''/v1/traces'') \<and>
       (explicit = [] \<longrightarrow> py_endswith (get_otlp_endpoint env) ''v1/traces'') \<and>
       get_otlp_endpoint env \<noteq> []) \<and>
   (let t = environ_get env ''OTEL_EXPORTER_OTLP_TRACES_ENDPOINT'' '''';
        g = environ_get env ''OTEL_EXPORTER_OTLP_ENDPOINT'' ''''
    in py_strip t = t \<and> py_strip g = g \<and>
       (g \<noteq> [] \<longrightarrow> py_rstrip ''/'' g \<noteq> [] \<and> \<not> py_endswith (py_rstrip ''/'' g) ''v1/traces'')
       \<longrightarrow> get_otlp_endpoint env = spec_endpoint env)"
proof -
  have branches: "get_otlp_endpoint env =
       (let explicit = py_strip (environ_get env ''OTEL_EXPORTER_OTLP_TRACES_ENDPOINT'' '''');
            base = py_rstrip ''/'' (py_strip (environ_get env ''OTEL_EXPORTER_OTLP_ENDPOINT'' ''''))
        in if explicit \<noteq> [] then explicit else if base = [] then DEFAULT_TRACES_ENDPOINT
           else if py_endswith base ''v1/traces'' then base else base @ ''/v1/traces'')"
    by (simp add: get_otlp_endpoint_def Let_def)
  have first: "get_endpoint env = get_otlp_endpoint env"
    by (rule get_endpoint_same)
  have second: "(let explicit = py_strip (environ_get env ''OTEL_EXPORTER_OTLP_TRACES_ENDPOINT'' '''');
        base = py_rstrip ''/'' (py_strip (environ_get env ''OTEL_EXPORTER_OTLP_ENDPOINT'' ''''))
    in (explicit \<noteq> [] \<longrightarrow> get_otlp_endpoint env = explicit) \<and>
       (explicit = [] \<and> base = [] \<longrightarrow> get_otlp_endpoint env = DEFAULT_TRACES_ENDPOINT) \<and>
       (explicit = [] \<and> base \<noteq> [] \<and> py_endswith base ''v1/traces''
          \<longrightarrow> get_otlp_endpoint env = base) \<and>
       (explicit = [] \<and> base \<noteq> [] \<and> \<not> py_endswith base ''v1/traces''
          \<longrightarrow> get_otlp_endpoint env = base @ ''/v1/traces'') \<and>
       (explicit = [] \<longrightarrow> py_endswith (get_otlp_endpoint env) ''v1/traces'') \<and>
       get_otlp_endpoint env \<noteq> [])"
    unfolding Let_def
    using get_otlp_endpoint_nonempty [of env] get_otlp_endpoint_suffix [of env] branches
    by (simp add: Let_def)
  have third: "(let t = environ_get env ''OTEL_EXPORTER_OTLP_TRACES_ENDPOINT'' '''';
        g = environ_get env ''OTEL_EXPORTER_OTLP_ENDPOINT'' ''''
    in py_strip t = t \<and> py_strip g = g \<and>
       (g \<noteq> [] \<longrightarrow> py_rstrip ''/'' g \<noteq> [] \<and> \<not> py_endswith (py_rstrip ''/'' g) ''v1/traces'')
       \<longrightarrow> get_otlp_endpoint env = spec_endpoint env)"
    unfolding Let_def using get_otlp_endpoint_agrees [of _ _ env] by blast
  from first second third show ?thesis by blast
qed

text \<open>
  The four branches on concrete environments: an explicit value with blanks around it, an
  empty environment, a generic value that already names the traces path, and a bare
  generic value.
\<close>

theorem endpoint_resolution_witness:
  "py_strip (environ_get [''OTEL_EXPORTER_OTLP_TRACES_ENDPOINT'' \<mapsto> '' http://c:4318/x '']
      ''OTEL_EXPORTER_OTLP_TRACES_ENDPOINT'' '''') = ''http://c:4318/x'' \<and>
   get_otlp_endpoint [''OTEL_EXPORTER_OTLP_TRACES_ENDPOINT'' \<mapsto> '' http://c:4318/x '']
     = ''http://c:4318/x'' \<and>
   get_otlp_endpoint Map.empty = ''http://localhost:4318/v1/traces'' \<and>
   get_otlp_endpoint [''OTEL_EXPORTER_OTLP_ENDPOINT'' \<mapsto> ''http://c:4318/v1/traces/'']
     = ''http://c:4318/v1/traces'' \<and>
   get_otlp_endpoint [''OTEL_EXPORTER_OTLP_ENDPOINT'' \<mapsto> ''http://c:4318'']
     = ''http://c:4318/v1/traces'' \<and>
   spec_endpoint [''OTEL_EXPORTER_OTLP_ENDPOINT'' \<mapsto> ''http://c:4318'']
     = ''http://c:4318/v1/traces'' \<and>
   get_endpoint [''OTEL_EXPORTER_OTLP_ENDPOINT'' \<mapsto> ''http://c:4318'']
     = ''http://c:4318/v1/traces''"
  using endpoint_resolution [of "[''OTEL_EXPORTER_OTLP_TRACES_ENDPOINT'' \<mapsto> '' http://c:4318/x '']"]
        endpoint_resolution [of "Map.empty"]
        endpoint_resolution [of "[''OTEL_EXPORTER_OTLP_ENDPOINT'' \<mapsto> ''http://c:4318/v1/traces/'']"]
        endpoint_resolution [of "[''OTEL_EXPORTER_OTLP_ENDPOINT'' \<mapsto> ''http://c:4318'']"]
  by (simp add: environ_get_def py_strip_def py_rstrip_def py_isspace_def py_endswith_def
        DEFAULT_TRACES_ENDPOINT_def spec_endpoint_def Let_def)

text \<open>
  Where the code leaves the order of the specification: a generic value that already ends
  with \<open>v1/traces\<close> gets no second suffix, an explicit value is not used as it is when
  blanks surround it, and a generic value made of slashes falls back to the default.
\<close>

theorem endpoint_resolution_counterexample:
  "get_otlp_endpoint [''OTEL_EXPORTER_OTLP_ENDPOINT'' \<mapsto> ''http://c:4318/v1/traces'']
     = ''http://c:4318/v1/traces'' \<and>
   spec_endpoint [''OTEL_EXPORTER_OTLP_ENDPOINT'' \<mapsto> ''http://c:4318/v1/traces'']
     = ''http://c:4318/v1/traces/v1/traces'' \<and>
   get_otlp_endpoint [''OTEL_EXPORTER_OTLP_TRACES_ENDPOINT'' \<mapsto> '' http://c:4318/x '']
     \<noteq> '' http://c:4318/x '' \<and>
   get_otlp_endpoint [''OTEL_EXPORTER_OTLP_ENDPOINT'' \<mapsto> ''/'']
     = ''http://localhost:4318/v1/traces'' \<and>
   spec_endpoint [''OTEL_EXPORTER_OTLP_ENDPOINT'' \<mapsto> ''/''] = ''/v1/traces''"
  by (simp add: get_otlp_endpoint_def spec_endpoint_def environ_get_def py_strip_def
        py_rstrip_def py_isspace_def py_endswith_def DEFAULT_TRACES_ENDPOINT_def Let_def)

subsection \<open>Header resolution\<close>

lemma environ_get_header_string:
  "environ_get env ''OTEL_EXPORTER_OTLP_TRACES_HEADERS''
     (environ_get env ''OTEL_EXPORTER_OTLP_HEADERS'' '''') = header_string env"
  by (simp add: environ_get_def header_string_def split: option.splits)

lemma get_otlp_headers_header_string:
  "get_otlp_headers parse env =
     (if header_string env \<noteq> [] then parse (header_string env) else Map.empty)"
  by (simp add: get_otlp_headers_def environ_get_header_string)

lemma parse_pairs_Nil: "parse_pairs [] = Map.empty"
  by (simp add: parse_pairs_def key_value_def List.map_filter_simps)

text \<open>
  Claim C9.  Both files build the header mapping alike.  It is empty when each of the two
  variables is unset or empty; it is the parse of the traces-specific variable when that
  one is set and non-empty, whatever the generic one holds; it is the parse of the
  generic variable when the traces-specific one is unset and the generic one is
  non-empty.  For a parser that maps the empty string to the empty mapping, as the
  library's does, the mapping is in every environment the one the specification
  describes: empty when neither variable has content, else the parse of the header
  string, the traces-specific variable taking precedence when it is set.
\<close>

theorem headers_resolution:
  "get_headers parse env = get_otlp_headers parse env \<and>
   (unset_or_empty env ''OTEL_EXPORTER_OTLP_TRACES_HEADERS'' \<and>
    unset_or_empty env ''OTEL_EXPORTER_OTLP_HEADERS''
      \<longrightarrow> get_otlp_headers parse env = Map.empty) \<and>
   (\<forall>t. env ''OTEL_EXPORTER_OTLP_TRACES_HEADERS'' = Some t \<and> t \<noteq> []
      \<longrightarrow> get_otlp_headers parse env = parse t) \<and>
   (\<forall>g. env ''OTEL_EXPORTER_OTLP_TRACES_HEADERS'' = None \<and>
        env ''OTEL_EXPORTER_OTLP_HEADERS'' = Some g \<and> g \<noteq> []
      \<longrightarrow> get_otlp_headers parse env = parse g) \<and>
   (parse [] = Map.empty \<longrightarrow> get_otlp_headers parse env = spec_headers parse env)"
proof -
  have same: "get_headers parse env = get_otlp_headers parse env"
    by (simp add: get_headers_def get_otlp_headers_def)
  have none: "unset_or_empty env ''OTEL_EXPORTER_OTLP_TRACES_HEADERS'' \<and>
      unset_or_empty env ''OTEL_EXPORTER_OTLP_HEADERS''
      \<longrightarrow> get_otlp_headers parse env = Map.empty"
    by (auto simp: get_otlp_headers_header_string header_string_def unset_or_empty_def
             split: option.splits)
  have traces: "\<forall>t. env ''OTEL_EXPORTER_OTLP_TRACES_HEADERS'' = Some t \<and> t \<noteq> []
      \<longrightarrow> get_otlp_headers parse env = parse t"
    by (simp add: get_otlp_headers_header_string header_string_def)
  have generic: "\<forall>g. env ''OTEL_EXPORTER_OTLP_TRACES_HEADERS'' = None \<and>
        env ''OTEL_EXPORTER_OTLP_HEADERS'' = Some g \<and> g \<noteq> []
      \<longrightarrow> get_otlp_headers parse env = parse g"
    by (simp add: get_otlp_headers_header_string header_string_def)
  have spec: "parse [] = Map.empty \<longrightarrow> get_otlp_headers parse env = spec_headers parse env"
    by (auto simp: get_otlp_headers_header_string spec_headers_def header_string_def
          unset_or_empty_def split: option.splits)
  from same none traces generic spec show ?thesis by blast
qed

text \<open>
  With the parser of comma-separated pairs: the traces-specific variable wins over the
  generic one, the generic one is used alone, and nothing set gives the empty mapping.
\<close>

theorem headers_resolution_witness:
  "parse_pairs [] = Map.empty \<and>
   get_otlp_headers parse_pairs
     [''OTEL_EXPORTER_OTLP_HEADERS'' \<mapsto> ''x-team=obs'',
      ''OTEL_EXPORTER_OTLP_TRACES_HEADERS'' \<mapsto> ''authorization=Bearer t,x-env=dev'']
     = parse_pairs ''authorization=Bearer t,x-env=dev'' \<and>
   parse_pairs ''authorization=Bearer t,x-env=dev''
     = [''authorization'' \<mapsto> ''Bearer t'', ''x-env'' \<mapsto> ''dev''] \<and>
   get_otlp_headers parse_pairs [''OTEL_EXPORTER_OTLP_HEADERS'' \<mapsto> ''x-team=obs'']
     = [''x-team'' \<mapsto> ''obs''] \<and>
   get_otlp_headers parse_pairs Map.empty = Map.empty \<and>
   get_headers parse_pairs
     [''OTEL_EXPORTER_OTLP_HEADERS'' \<mapsto> ''x-team=obs'',
      ''OTEL_EXPORTER_OTLP_TRACES_HEADERS'' \<mapsto> ''''] = Map.empty \<and>
   spec_headers parse_pairs
     [''OTEL_EXPORTER_OTLP_HEADERS'' \<mapsto> ''x-team=obs'',
      ''OTEL_EXPORTER_OTLP_TRACES_HEADERS'' \<mapsto> ''''] = Map.empty"
  using headers_resolution [of parse_pairs
          "[''OTEL_EXPORTER_OTLP_HEADERS'' \<mapsto> ''x-team=obs'',
            ''OTEL_EXPORTER_OTLP_TRACES_HEADERS'' \<mapsto> ''authorization=Bearer t,x-env=dev'']"]
        headers_resolution [of parse_pairs "[''OTEL_EXPORTER_OTLP_HEADERS'' \<mapsto> ''x-team=obs'']"]
        headers_resolution [of parse_pairs Map.empty]
        headers_resolution [of parse_pairs
          "[''OTEL_EXPORTER_OTLP_HEADERS'' \<mapsto> ''x-team=obs'',
            ''OTEL_EXPORTER_OTLP_TRACES_HEADERS'' \<mapsto> '''']"]
        parse_pairs_Nil
  by (simp add: parse_pairs_def key_value_def List.map_filter_simps unset_or_empty_def
        header_string_def spec_headers_def get_otlp_headers_def get_headers_def
        environ_get_def)

subsection \<open>The result-tracking wrappers\<close>

text \<open>
  Claim C5.  For every wrapped exporter, every list of spans and every state, \<open>export\<close>
  of either wrapper returns what the wrapped exporter's \<open>export\<close> returns (or raises what
  it raises) and leaves the wrapped exporter in the state its own \<open>export\<close> leaves it in;
  \<open>shutdown\<close> and \<open>force_flush\<close> forward likewise, a \<open>force_flush\<close> without argument
  passing 30000.
\<close>

theorem wrappers_forward:
  "fst (tracking_export ops spans t) = fst (inner_export ops spans (inner t)) \<and>
   inner (snd (tracking_export ops spans t)) = snd (inner_export ops spans (inner t)) \<and>
   fst (tracking_shutdown ops t) = fst (inner_shutdown ops (inner t)) \<and>
   inner (snd (tracking_shutdown ops t)) = snd (inner_shutdown ops (inner t)) \<and>
   fst (tracking_force_flush ops (Some m) t) = fst (inner_force_flush ops m (inner t)) \<and>
   inner (snd (tracking_force_flush ops (Some m) t)) = snd (inner_force_flush ops m (inner t)) \<and>
   tracking_force_flush ops None t = tracking_force_flush ops (Some 30000) t \<and>
   fst (logging_export ops spans l) = fst (inner_export ops spans (inner l)) \<and>
   inner (snd (logging_export ops spans l)) = snd (inner_export ops spans (inner l)) \<and>
   fst (logging_shutdown ops l) = fst (inner_shutdown ops (inner l)) \<and>
   inner (snd (logging_shutdown ops l)) = snd (inner_shutdown ops (inner l)) \<and>
   fst (logging_force_flush ops (Some m) l) = fst (inner_force_flush ops m (inner l)) \<and>
   inner (snd (logging_force_flush ops (Some m) l)) = snd (inner_force_flush ops m (inner l)) \<and>
   logging_force_flush ops None l = logging_force_flush ops (Some 30000) l"
proof -
  have te: "fst (tracking_export ops spans t) = fst (inner_export ops spans (inner t)) \<and>
            inner (snd (tracking_export ops spans t)) = snd (inner_export ops spans (inner t))"
    by (cases "inner_export ops spans (inner t)")
       (auto simp: tracking_export_def Let_def split: sum.splits)
  have ts: "fst (tracking_shutdown ops t) = fst (inner_shutdown ops (inner t)) \<and>
            inner (snd (tracking_shutdown ops t)) = snd (inner_shutdown ops (inner t))"
    by (cases "inner_shutdown ops (inner t)")
       (auto simp: tracking_shutdown_def split: sum.splits)
  have tf: "\<And>k. fst (tracking_force_flush ops (Some k) t) = fst (inner_force_flush ops k (inner t)) \<and>
            inner (snd (tracking_force_flush ops (Some k) t)) = snd (inner_force_flush ops k (inner t))"
    by (simp add: tracking_force_flush_def split: prod.splits)
  have le: "fst (logging_export ops spans l) = fst (inner_export ops spans (inner l)) \<and>
            inner (snd (logging_export ops spans l)) = snd (inner_export ops spans (inner l))"
    by (cases "inner_export ops spans (inner l)")
       (auto simp: logging_export_def Let_def split: sum.splits)
  have ls: "fst (logging_shutdown ops l) = fst (inner_shutdown ops (inner l)) \<and>
            inner (snd (logging_shutdown ops l)) = snd (inner_shutdown ops (inner l))"
    by (cases "inner_shutdown ops (inner l)")
       (auto simp: logging_shutdown_def split: sum.splits)
  have lf: "\<And>k. fst (logging_force_flush ops (Some k) l) = fst (inner_force_flush ops k (inner l)) \<and>
            inner (snd (logging_force_flush ops (Some k) l)) = snd (inner_force_flush ops k (inner l))"
    by (simp add: logging_force_flush_def split: prod.splits)
  have dflt: "tracking_force_flush ops None t = tracking_force_flush ops (Some 30000) t"
             "logging_force_flush ops None l = logging_force_flush ops (Some 30000) l"
    by (simp_all add: tracking_force_flush_def logging_force_flush_def)
  from te ts tf le ls lf dflt show ?thesis by blast
qed

theorem wrappers_forward_witness:
  "fst (tracking_export scripted [''chat gpt-4o'']
          (TrackingSpanExporter [Inr FAILURE, Inr SUCCESS])) = Inr FAILURE \<and>
   inner (snd (tracking_export scripted [''chat gpt-4o'']
          (TrackingSpanExporter [Inr FAILURE, Inr SUCCESS]))) = [Inr SUCCESS] \<and>
   fst (logging_export scripted [''chat gpt-4o'']
          (LoggingSpanExporter [Inr FAILURE, Inr SUCCESS])) = Inr FAILURE \<and>
   fst (tracking_force_flush (scripted :: (_, string) span_exporter) None
          (TrackingSpanExporter [])) = Inr True"
  using wrappers_forward [of scripted "[''chat gpt-4o'']"
          "TrackingSpanExporter [Inr FAILURE, Inr SUCCESS]" 30000
          "LoggingSpanExporter [Inr FAILURE, Inr SUCCESS]"]
        wrappers_forward [of "scripted :: (_, string) span_exporter" "[]"
          "TrackingSpanExporter []" 30000 "LoggingSpanExporter []"]
  by (simp add: scripted_def TrackingSpanExporter_def LoggingSpanExporter_def)

text \<open>
  Claim C4.  When the wrapped exporter's \<open>export\<close> raises, \<open>export\<close> of either wrapper
  raises the same exception, and an exception (an instance of \<open>Exception\<close>, the class
  the handler names) is recorded as \<open>last_error\<close> before.
\<close>

theorem export_records_and_reraises:
  "(fst (inner_export ops spans (inner t)) = Inl e \<longrightarrow>
      fst (tracking_export ops spans t) = Inl e \<and>
      (is_Exception e \<longrightarrow> last_error (snd (tracking_export ops spans t)) = Some e)) \<and>
   (fst (inner_export ops spans (inner l)) = Inl e \<longrightarrow>
      fst (logging_export ops spans l) = Inl e \<and>
      (is_Exception e \<longrightarrow> last_error (snd (logging_export ops spans l)) = Some e))"
proof -
  have a: "fst (inner_export ops spans (inner t)) = Inl e \<Longrightarrow>
      fst (tracking_export ops spans t) = Inl e \<and>
      (is_Exception e \<longrightarrow> last_error (snd (tracking_export ops spans t)) = Some e)"
    by (cases "inner_export ops spans (inner t)")
       (auto simp: tracking_export_def Let_def)
  have b: "fst (inner_export ops spans (inner l)) = Inl e \<Longrightarrow>
      fst (logging_export ops spans l) = Inl e \<and>
      (is_Exception e \<longrightarrow> last_error (snd (logging_export ops spans l)) = Some e)"
    by (cases "inner_export ops spans (inner l)")
       (auto simp: logging_export_def Let_def)
  from a b show ?thesis by blast
qed

theorem export_records_and_reraises_witness:
  "fst (inner_export scripted [''chat gpt-4o'']
          (inner (TrackingSpanExporter [Inl connection_refused]))) = Inl connection_refused \<and>
   is_Exception connection_refused \<and>
   fst (tracking_export scripted [''chat gpt-4o'']
          (TrackingSpanExporter [Inl connection_refused])) = Inl connection_refused \<and>
   last_error (snd (tracking_export scripted [''chat gpt-4o'']
          (TrackingSpanExporter [Inl connection_refused]))) = Some connection_refused \<and>
   fst (inner_export scripted [''chat gpt-4o'']
          (inner (LoggingSpanExporter [Inl connection_refused]))) = Inl connection_refused \<and>
   fst (logging_export scripted [''chat gpt-4o'']
          (LoggingSpanExporter [Inl connection_refused])) = Inl connection_refused \<and>
   last_error (snd (logging_export scripted [''chat gpt-4o'']
          (LoggingSpanExporter [Inl connection_refused]))) = Some connection_refused"
proof -
  have h1: "fst (inner_export scripted [''chat gpt-4o'']
          (inner (TrackingSpanExporter [Inl connection_refused]))) = Inl connection_refused"
    by (simp add: scripted_def TrackingSpanExporter_def)
  have h2: "fst (inner_export scripted [''chat gpt-4o'']
          (inner (LoggingSpanExporter [Inl connection_refused]))) = Inl connection_refused"
    by (simp add: scripted_def LoggingSpanExporter_def)
  have h3: "is_Exception connection_refused"
    by (simp add: connection_refused_def)
  show ?thesis
    using h1 h2 h3
      export_records_and_reraises [of scripted "[''chat gpt-4o'']"
        "TrackingSpanExporter [Inl connection_refused]" connection_refused
        "LoggingSpanExporter [Inl connection_refused]"]
    by simp
qed

lemma tracking_export_last_error:
  "last_error (snd (tracking_export ops spans t)) =
     (case fst (inner_export ops spans (inner t)) of
        Inl e \<Rightarrow> if is_Exception e then Some e else None
      | Inr r \<Rightarrow> None)"
  by (cases "inner_export ops spans (inner t)")
     (auto simp: tracking_export_def Let_def split: sum.splits)

lemma tracking_export_failure_recorded:
  "failure_recorded (snd (tracking_export ops spans t))"
  by (cases "inner_export ops spans (inner t)")
     (auto simp: tracking_export_def Let_def failure_recorded_def split: sum.splits)

lemma tracking_call_failure_recorded:
  "failure_recorded t \<Longrightarrow> failure_recorded (tracking_call ops t c)"
proof (cases c)
  case (Export spans)
  then show ?thesis
    by (simp add: tracking_call_def tracking_export_failure_recorded)
next
  case Shutdown
  assume "failure_recorded t"
  with Shutdown show ?thesis
    by (cases "inner_shutdown ops (inner t)")
       (auto simp: tracking_call_def tracking_shutdown_def failure_recorded_def split: sum.splits)
next
  case (Force_flush m)
  assume "failure_recorded t"
  with Force_flush show ?thesis
    by (auto simp: tracking_call_def tracking_force_flush_def failure_recorded_def
             split: prod.splits)
qed

lemma tracking_run_failure_recorded:
  "failure_recorded t \<Longrightarrow> failure_recorded (tracking_run ops cs t)"
  unfolding tracking_run_def
  by (induction cs arbitrary: t) (simp_all add: tracking_call_failure_recorded)

text \<open>
  Claim C10.  After any \<open>export\<close> of \<open>TrackingSpanExporter\<close>, \<open>last_error\<close> is set exactly
  when the wrapped \<open>export\<close> of that call raised an exception, and then \<open>last_result\<close> is
  \<open>FAILURE\<close>; after any sequence of calls on a new wrapper a recorded error comes with
  the outcome \<open>FAILURE\<close>.
\<close>

theorem tracking_invariant:
  "(last_error (snd (tracking_export ops spans t)) \<noteq> None
      \<longleftrightarrow> (\<exists>e. fst (inner_export ops spans (inner t)) = Inl e \<and> is_Exception e)) \<and>
   (last_error (snd (tracking_export ops spans t)) \<noteq> None
      \<longrightarrow> last_result (snd (tracking_export ops spans t)) = Some FAILURE) \<and>
   failure_recorded (tracking_run ops cs (TrackingSpanExporter d))"
proof -
  have a: "last_error (snd (tracking_export ops spans t)) \<noteq> None
      \<longleftrightarrow> (\<exists>e. fst (inner_export ops spans (inner t)) = Inl e \<and> is_Exception e)"
    by (simp add: tracking_export_last_error split: sum.splits)
  have b: "last_error (snd (tracking_export ops spans t)) \<noteq> None
      \<longrightarrow> last_result (snd (tracking_export ops spans t)) = Some FAILURE"
    using tracking_export_failure_recorded [of ops spans t]
    by (auto simp: failure_recorded_def)
  have "failure_recorded (TrackingSpanExporter d)"
    by (simp add: failure_recorded_def TrackingSpanExporter_def)
  then have c: "failure_recorded (tracking_run ops cs (TrackingSpanExporter d))"
    by (rule tracking_run_failure_recorded)
  from a b c show ?thesis by blast
qed

theorem tracking_invariant_witness:
  "fst (inner_export scripted [''chat gpt-4o'']
          (inner (TrackingSpanExporter [Inl connection_refused]))) = Inl connection_refused \<and>
   is_Exception connection_refused \<and>
   last_error (snd (tracking_export scripted [''chat gpt-4o'']
          (TrackingSpanExporter [Inl connection_refused]))) \<noteq> None \<and>
   last_result (snd (tracking_export scripted [''chat gpt-4o'']
          (TrackingSpanExporter [Inl connection_refused]))) = Some FAILURE \<and>
   last_error (tracking_run scripted
          [Export [''chat gpt-4o''], Force_flush None, Export [''execute_tool get_weather'']]
          (TrackingSpanExporter [Inr SUCCESS, Inl connection_refused])) = Some connection_refused \<and>
   last_result (tracking_run scripted
          [Export [''chat gpt-4o''], Force_flush None, Export [''execute_tool get_weather'']]
          (TrackingSpanExporter [Inr SUCCESS, Inl connection_refused])) = Some FAILURE"
proof -
  have h1: "fst (inner_export scripted [''chat gpt-4o'']
          (inner (TrackingSpanExporter [Inl connection_refused]))) = Inl connection_refused"
    by (simp add: scripted_def TrackingSpanExporter_def)
  have h3: "is_Exception connection_refused"
    by (simp add: connection_refused_def)
  have run: "last_error (tracking_run scripted
          [Export [''chat gpt-4o''], Force_flush None, Export [''execute_tool get_weather'']]
          (TrackingSpanExporter [Inr SUCCESS, Inl connection_refused])) = Some connection_refused"
    by (simp add: tracking_run_def tracking_call_def tracking_export_def
          tracking_force_flush_def scripted_def TrackingSpanExporter_def
          connection_refused_def Let_def)
  show ?thesis
    using h1 h3 run
      tracking_invariant [of scripted "[''chat gpt-4o'']"
        "TrackingSpanExporter [Inl connection_refused]"
        "[Export [''chat gpt-4o''], Force_flush None, Export [''execute_tool get_weather'']]"
        "[Inr SUCCESS, Inl connection_refused]"]
    by (auto simp: failure_recorded_def)
qed

subsection \<open>The end of the host process\<close>

text \<open>
  What both \<open>main\<close> functions read: the status is 0 exactly when \<open>last_result\<close> is
  \<open>SUCCESS\<close>, and on failure a recorded \<open>last_error\<close> is printed.
\<close>

lemma main_reads_last_result:
  "(\<exists>r. main_llm_log ep None t = Inr r \<and>
        (exit_status r \<noteq> 0 \<longleftrightarrow> last_result t \<noteq> Some SUCCESS) \<and>
        (last_result t = Some SUCCESS \<longrightarrow> exit_status r = 0) \<and>
        (last_result t \<noteq> Some SUCCESS \<longrightarrow>
           (\<forall>e. last_error t = Some e \<longrightarrow> (''Error: '' @ message e) \<in> set (stdout r)))) \<and>
   (\<exists>r. main_agent_otel ep None t = Inr r \<and>
        (exit_status r \<noteq> 0 \<longleftrightarrow> last_result t \<noteq> Some SUCCESS) \<and>
        (last_result t = Some SUCCESS \<longrightarrow> exit_status r = 0) \<and>
        (last_result t \<noteq> Some SUCCESS \<longrightarrow>
           (\<forall>e. last_error t = Some e \<longrightarrow>
              (''Last export error: '' @ message e) \<in> set (stdout r))))"
  by (simp add: main_llm_log_def main_agent_otel_def)

text \<open>
  With \<open>TrackingSpanExporter\<close> the recorded outcome is that of the most recent export,
  so \<open>main\<close> of otel_llm_log.py exits with status 0 exactly when the most recent export
  returned \<open>SUCCESS\<close>.
\<close>

lemma tracking_export_last_result:
  assumes "\<forall>e. fst (inner_export ops spans (inner t)) = Inl e \<longrightarrow> is_Exception e"
  shows "last_result (snd (tracking_export ops spans t)) =
           (case fst (inner_export ops spans (inner t)) of
              Inl e \<Rightarrow> Some FAILURE
            | Inr r \<Rightarrow> Some r)"
  using assms
  by (cases "inner_export ops spans (inner t)")
     (auto simp: tracking_export_def Let_def split: sum.splits)

lemma main_llm_log_follows_last_export:
  assumes "\<forall>e. fst (inner_export ops spans (inner t)) = Inl e \<longrightarrow> is_Exception e"
  shows "\<exists>r. main_llm_log ep None (snd (tracking_export ops spans t)) = Inr r \<and>
             (exit_status r = 0 \<longleftrightarrow> fst (inner_export ops spans (inner t)) = Inr SUCCESS)"
  using tracking_export_last_result [OF assms]
  by (cases "fst (inner_export ops spans (inner t))")
     (auto simp: main_llm_log_def)

text \<open>
  Claim C2.  After flush and shutdown the host process is to exit with a status other
  than 0 exactly when the recorded outcome of the last delivery is not success.  \<open>main\<close>
  of agent_otel.py does not: \<open>LoggingSpanExporter.export\<close> records the error but leaves
  \<open>last_result\<close> as it was when the wrapped export raises, so after an export that
  succeeds and one that raises the recorded outcome is still \<open>SUCCESS\<close>, and the process
  prints the success line, not the recorded error, and exits with status 0.  On the same
  calls \<open>TrackingSpanExporter\<close> records \<open>FAILURE\<close> and \<open>main\<close> of otel_llm_log.py prints
  the error and exits with status 1.
\<close>

theorem agent_otel_exits_zero_after_failed_export:
  "fst (logging_export scripted [''execute_tool get_weather'']
          (snd (logging_export scripted [''chat gpt-4o'']
             (LoggingSpanExporter [Inr SUCCESS, Inl connection_refused]))))
     = Inl connection_refused \<and>
   last_result (snd (logging_export scripted [''execute_tool get_weather'']
          (snd (logging_export scripted [''chat gpt-4o'']
             (LoggingSpanExporter [Inr SUCCESS, Inl connection_refused]))))) = Some SUCCESS \<and>
   last_error (snd (logging_export scripted [''execute_tool get_weather'']
          (snd (logging_export scripted [''chat gpt-4o'']
             (LoggingSpanExporter [Inr SUCCESS, Inl connection_refused])))))
     = Some connection_refused \<and>
   main_agent_otel ''http://localhost:4318/v1/traces'' None
       (snd (logging_export scripted [''execute_tool get_weather'']
          (snd (logging_export scripted [''chat gpt-4o'']
             (LoggingSpanExporter [Inr SUCCESS, Inl connection_refused])))))
     = Inr \<lparr>stdout = [''LangChain/LangGraph spans exported to http://localhost:4318/v1/traces. Service: langgraph-agent-otel.''],
            exit_status = 0\<rparr> \<and>
   last_result (snd (tracking_export scripted [''execute_tool get_weather'']
          (snd (tracking_export scripted [''chat gpt-4o'']
             (TrackingSpanExporter [Inr SUCCESS, Inl connection_refused]))))) = Some FAILURE \<and>
   main_llm_log ''http://localhost:4318/v1/traces'' None
       (snd (tracking_export scripted [''execute_tool get_weather'']
          (snd (tracking_export scripted [''chat gpt-4o'']
             (TrackingSpanExporter [Inr SUCCESS, Inl connection_refused])))))
     = Inr \<lparr>stdout = [''Export failed (SSL or network error). Check logs above. Endpoint: http://localhost:4318/v1/traces'',
                      ''Error: Connection refused''],
            exit_status = 1\<rparr>"
  by (simp add: main_llm_log_def main_agent_otel_def tracking_export_def logging_export_def
        scripted_def TrackingSpanExporter_def LoggingSpanExporter_def connection_refused_def
        Let_def)

subsection \<open>The exporter without certificate verification\<close>

lemma NoSSL_export_retry:
  assumes "net (length (sent st)) (the_request cd ex d tmo) = Inl e" and "is_ConnectionError e"
  shows "NoSSL_export cd net ex d tmo st =
           (net (Suc (length (sent st))) (the_request cd ex d tmo),
            st\<lparr>sent := sent st @ [the_request cd ex d tmo, the_request cd ex d tmo]\<rparr>)"
  using assms by (simp add: NoSSL_export_def post_def Let_def)

lemma NoSSL_export_single:
  assumes "\<not> (\<exists>e. net (length (sent st)) (the_request cd ex d tmo) = Inl e \<and> is_ConnectionError e)"
  shows "NoSSL_export cd net ex d tmo st =
           (net (length (sent st)) (the_request cd ex d tmo),
            st\<lparr>sent := sent st @ [the_request cd ex d tmo]\<rparr>)"
  using assms
  by (cases "net (length (sent st)) (the_request cd ex d tmo)")
     (auto simp: NoSSL_export_def post_def Let_def)

lemma NoSSL_export_logged:
  "logged (snd (NoSSL_export cd net ex d tmo st)) = logged st"
proof (cases "\<exists>e. net (length (sent st)) (the_request cd ex d tmo) = Inl e \<and> is_ConnectionError e")
  case True
  then obtain e where "net (length (sent st)) (the_request cd ex d tmo) = Inl e"
    and "is_ConnectionError e" by blast
  then show ?thesis by (simp add: NoSSL_export_retry)
next
  case False
  then show ?thesis by (simp add: NoSSL_export_single)
qed

lemma langgraph_NoSSL_export_fst:
  "fst (langgraph_NoSSL_export cd net ex d tmo st) =
     net (length (sent st)) (the_request cd ex d tmo)"
  by (cases "net (length (sent st)) (the_request cd ex d tmo)")
     (simp_all add: langgraph_NoSSL_export_def post_def Let_def)

lemma langgraph_NoSSL_export_sent:
  "sent (snd (langgraph_NoSSL_export cd net ex d tmo st)) =
     sent st @ [the_request cd ex d tmo]"
  by (cases "net (length (sent st)) (the_request cd ex d tmo)")
     (simp_all add: langgraph_NoSSL_export_def post_def Let_def logger_error_def)

lemma new_requests_NoSSL_export:
  "new_requests st (snd (NoSSL_export cd net ex d tmo st)) =
     (if \<exists>e. net (length (sent st)) (the_request cd ex d tmo) = Inl e \<and> is_ConnectionError e
      then [the_request cd ex d tmo, the_request cd ex d tmo]
      else [the_request cd ex d tmo])"
proof (cases "\<exists>e. net (length (sent st)) (the_request cd ex d tmo) = Inl e \<and> is_ConnectionError e")
  case True
  then obtain e where "net (length (sent st)) (the_request cd ex d tmo) = Inl e"
    and "is_ConnectionError e" by blast
  then have "NoSSL_export cd net ex d tmo st =
           (net (Suc (length (sent st))) (the_request cd ex d tmo),
            st\<lparr>sent := sent st @ [the_request cd ex d tmo, the_request cd ex d tmo]\<rparr>)"
    by (rule NoSSL_export_retry)
  with True show ?thesis by (simp add: new_requests_def)
next
  case False
  then have "NoSSL_export cd net ex d tmo st =
           (net (length (sent st)) (the_request cd ex d tmo),
            st\<lparr>sent := sent st @ [the_request cd ex d tmo]\<rparr>)"
    by (rule NoSSL_export_single)
  with False show ?thesis by (simp add: new_requests_def)
qed

lemma new_requests_langgraph:
  "new_requests st (snd (langgraph_NoSSL_export cd net ex d tmo st)) = [the_request cd ex d tmo]"
  by (simp add: new_requests_def langgraph_NoSSL_export_sent)

text \<open>
  Claim C1, as the code has it.  In otel_llm_log.py a send whose first request raises a
  \<open>ConnectionError\<close> posts the same request once more as its next and only further
  action: the two posts are all the send does, nothing is logged or done between or
  after them.  The outcome of that second request, a response or whatever it raises, a
  connection error too, is the outcome of the send.  Any other first outcome (a response
  of any status, or an exception that is no \<open>ConnectionError\<close>) is final and the one post
  is all the send does.  So a send posts once or twice.  In langgraph/otel_export.py
  every send posts exactly once and its outcome, a connection error too, is that of the
  one request: there is no retry.
\<close>

theorem retry_on_connection_error:
  "(let rq = the_request cd ex d tmo;
        n = length (sent st);
        out = NoSSL_export cd net ex d tmo st;
        lg = langgraph_NoSSL_export cd net ex d tmo st
    in ((\<exists>e. net n rq = Inl e \<and> is_ConnectionError e)
          \<longrightarrow> snd out = st\<lparr>sent := sent st @ [rq, rq]\<rparr> \<and>
              new_requests st (snd out) = [rq, rq] \<and> fst out = net (Suc n) rq) \<and>
       (\<not> (\<exists>e. net n rq = Inl e \<and> is_ConnectionError e)
          \<longrightarrow> snd out = st\<lparr>sent := sent st @ [rq]\<rparr> \<and>
              new_requests st (snd out) = [rq] \<and> fst out = net n rq) \<and>
       length (new_requests st (snd out)) \<le> 2 \<and>
       new_requests st (snd lg) = [rq] \<and> fst lg = net n rq)"
proof -
  let ?rq = "the_request cd ex d tmo"
  let ?n = "length (sent st)"
  let ?c = "\<exists>e. net ?n ?rq = Inl e \<and> is_ConnectionError e"
  have a: "?c \<longrightarrow> snd (NoSSL_export cd net ex d tmo st) = st\<lparr>sent := sent st @ [?rq, ?rq]\<rparr>
            \<and> new_requests st (snd (NoSSL_export cd net ex d tmo st)) = [?rq, ?rq]
            \<and> fst (NoSSL_export cd net ex d tmo st) = net (Suc ?n) ?rq"
  proof
    assume c: ?c
    then obtain e where "net ?n ?rq = Inl e" and "is_ConnectionError e" by blast
    then have "NoSSL_export cd net ex d tmo st =
                 (net (Suc ?n) ?rq, st\<lparr>sent := sent st @ [?rq, ?rq]\<rparr>)"
      by (rule NoSSL_export_retry)
    then have "snd (NoSSL_export cd net ex d tmo st) = st\<lparr>sent := sent st @ [?rq, ?rq]\<rparr>"
      and "fst (NoSSL_export cd net ex d tmo st) = net (Suc ?n) ?rq"
      by simp_all
    moreover from c have "new_requests st (snd (NoSSL_export cd net ex d tmo st)) = [?rq, ?rq]"
      by (simp add: new_requests_NoSSL_export)
    ultimately show "snd (NoSSL_export cd net ex d tmo st) = st\<lparr>sent := sent st @ [?rq, ?rq]\<rparr>
            \<and> new_requests st (snd (NoSSL_export cd net ex d tmo st)) = [?rq, ?rq]
            \<and> fst (NoSSL_export cd net ex d tmo st) = net (Suc ?n) ?rq"
      by blast
  qed
  have b: "\<not> ?c \<longrightarrow> snd (NoSSL_export cd net ex d tmo st) = st\<lparr>sent := sent st @ [?rq]\<rparr>
            \<and> new_requests st (snd (NoSSL_export cd net ex d tmo st)) = [?rq]
            \<and> fst (NoSSL_export cd net ex d tmo st) = net ?n ?rq"
  proof
    assume c: "\<not> ?c"
    then have "NoSSL_export cd net ex d tmo st = (net ?n ?rq, st\<lparr>sent := sent st @ [?rq]\<rparr>)"
      by (rule NoSSL_export_single)
    then have "snd (NoSSL_export cd net ex d tmo st) = st\<lparr>sent := sent st @ [?rq]\<rparr>"
      and "fst (NoSSL_export cd net ex d tmo st) = net ?n ?rq"
      by simp_all
    moreover from c have "new_requests st (snd (NoSSL_export cd net ex d tmo st)) = [?rq]"
      by (simp add: new_requests_NoSSL_export)
    ultimately show "snd (NoSSL_export cd net ex d tmo st) = st\<lparr>sent := sent st @ [?rq]\<rparr>
            \<and> new_requests st (snd (NoSSL_export cd net ex d tmo st)) = [?rq]
            \<and> fst (NoSSL_export cd net ex d tmo st) = net ?n ?rq"
      by blast
  qed
  have c: "length (new_requests st (snd (NoSSL_export cd net ex d tmo st))) \<le> 2"
    by (simp add: new_requests_NoSSL_export)
  have d: "new_requests st (snd (langgraph_NoSSL_export cd net ex d tmo st)) = [?rq]"
    by (rule new_requests_langgraph)
  have e: "fst (langgraph_NoSSL_export cd net ex d tmo st) = net ?n ?rq"
    by (rule langgraph_NoSSL_export_fst)
  from a b c d e show ?thesis unfolding Let_def by blast
qed

lemma local_exporter_simps:
  "endpoint local_exporter = ''http://localhost:4318/v1/traces''"
  "compression local_exporter = NoCompression"
  "default_timeout local_exporter = 10"
  "client_cert local_exporter = None"
  by (simp_all add: local_exporter_def create_otlp_exporter_no_ssl_def library_settings_def
        DEFAULT_TRACES_ENDPOINT_def)

text \<open>
  A refused connection followed by an accepted one, a collector that refuses every
  connection, a read timeout, an HTTP 503 and a connect timeout (a \<open>ConnectionError\<close>
  too, so it is retried), all through the exporter of otel_llm_log.py.
\<close>

theorem retry_on_connection_error_witness:
  "replies [Inl connection_refused, Inr accepted] (length (sent no_traffic))
       (the_request framing local_exporter [1, 2, 3] None) = Inl connection_refused \<and>
   is_ConnectionError connection_refused \<and>
   length (new_requests no_traffic
       (snd (NoSSL_export framing (replies [Inl connection_refused, Inr accepted])
               local_exporter [1, 2, 3] None no_traffic))) = 2 \<and>
   fst (NoSSL_export framing (replies [Inl connection_refused, Inr accepted])
               local_exporter [1, 2, 3] None no_traffic) = Inr accepted \<and>
   fst (NoSSL_export framing (always (Inl connection_refused))
               local_exporter [1, 2, 3] None no_traffic) = Inl connection_refused \<and>
   \<not> is_ConnectionError read_timeout \<and>
   length (new_requests no_traffic
       (snd (NoSSL_export framing (always (Inl read_timeout))
               local_exporter [1, 2, 3] None no_traffic))) = 1 \<and>
   fst (NoSSL_export framing (always (Inl read_timeout))
               local_exporter [1, 2, 3] None no_traffic) = Inl read_timeout \<and>
   length (new_requests no_traffic
       (snd (NoSSL_export framing (always (Inr unavailable))
               local_exporter [1, 2, 3] None no_traffic))) = 1 \<and>
   is_ConnectionError connect_timeout \<and>
   length (new_requests no_traffic
       (snd (NoSSL_export framing (always (Inl connect_timeout))
               local_exporter [1, 2, 3] None no_traffic))) = 2"
  using retry_on_connection_error
          [where net = "replies [Inl connection_refused, Inr accepted]" and cd = framing and ex = local_exporter
            and d = "[1, 2, 3]" and tmo = None and st = no_traffic]
        retry_on_connection_error
          [where net = "always (Inl connection_refused)" and cd = framing and ex = local_exporter
            and d = "[1, 2, 3]" and tmo = None and st = no_traffic]
        retry_on_connection_error
          [where net = "always (Inl read_timeout)" and cd = framing and ex = local_exporter
            and d = "[1, 2, 3]" and tmo = None and st = no_traffic]
        retry_on_connection_error
          [where net = "always (Inr unavailable)" and cd = framing and ex = local_exporter
            and d = "[1, 2, 3]" and tmo = None and st = no_traffic]
        retry_on_connection_error
          [where net = "always (Inl connect_timeout)" and cd = framing and ex = local_exporter
            and d = "[1, 2, 3]" and tmo = None and st = no_traffic]
  by (simp add: Let_def replies_def always_def no_traffic_def connection_refused_def
        read_timeout_def connect_timeout_def new_requests_def)

text \<open>
  The exporter of langgraph/otel_export.py against a collector that refuses every
  connection: one request, no retry.
\<close>

theorem retry_on_connection_error_counterexample:
  "always (Inl connection_refused) 0 (the_request framing local_exporter [1, 2, 3] None)
     = Inl connection_refused \<and>
   is_ConnectionError connection_refused \<and>
   length (new_requests no_traffic
       (snd (langgraph_NoSSL_export framing (always (Inl connection_refused))
               local_exporter [1, 2, 3] None no_traffic))) = 1 \<and>
   fst (langgraph_NoSSL_export framing (always (Inl connection_refused))
               local_exporter [1, 2, 3] None no_traffic) = Inl connection_refused"
  by (simp add: langgraph_NoSSL_export_def post_def new_requests_def logger_error_def
        always_def no_traffic_def connection_refused_def Let_def)

lemma body_preview_length: "length (body_preview t) \<le> 1003"
  by (simp add: body_preview_def)

lemma body_preview_prefix: "t \<noteq> [] \<Longrightarrow> take 1000 (body_preview t) = take 1000 t"
  by (simp add: body_preview_def)

lemma langgraph_http_failure:
  assumes "net (length (sent st)) (the_request cd ex d tmo) = Inr resp" and "\<not> ok resp"
  shows "new_records st (snd (langgraph_NoSSL_export cd net ex d tmo st)) =
     [\<lparr>level = ERROR,
       fmt = ''OTLP trace export HTTP error: status=%s reason=%s url=%s request_content_length=%s response_body=%s'',
       args = [ArgInt (status_code resp), ArgStr (reason resp), ArgStr (endpoint ex),
               ArgInt (int (length (compressed cd ex d))),
               ArgStr (body_preview (text_of resp))],
       exc_info = False\<rparr>]"
  using assms
  by (simp add: langgraph_NoSSL_export_def post_def Let_def logger_error_def new_records_def
        the_request_def)

text \<open>
  Claim C3, as the code has it.  When the response to the request has a status that is
  not a success, both exporters return that response, status included, and raise
  nothing.  The exporter of langgraph/otel_export.py logs one error record with the
  status, the reason, the endpoint, the length of the request payload and a preview of
  the body; the exporter of otel_llm_log.py logs nothing.  The preview is the first 1000
  characters of the body followed by \<open>...\<close> when the body is longer than 1000
  characters (1003 characters then), the body itself when it is shorter, and
  \<open>(empty)\<close> for an empty body.
\<close>

theorem http_failure_is_returned:
  "(net (length (sent st)) (the_request cd ex d tmo) = Inr resp \<and> \<not> ok resp \<longrightarrow>
      fst (langgraph_NoSSL_export cd net ex d tmo st) = Inr resp \<and>
      new_records st (snd (langgraph_NoSSL_export cd net ex d tmo st)) =
        [\<lparr>level = ERROR,
          fmt = ''OTLP trace export HTTP error: status=%s reason=%s url=%s request_content_length=%s response_body=%s'',
          args = [ArgInt (status_code resp), ArgStr (reason resp), ArgStr (endpoint ex),
                  ArgInt (int (length (compressed cd ex d))),
                  ArgStr (body_preview (text_of resp))],
          exc_info = False\<rparr>] \<and>
      fst (NoSSL_export cd net ex d tmo st) = Inr resp \<and>
      new_records st (snd (NoSSL_export cd net ex d tmo st)) = []) \<and>
   (length t > 1000 \<longrightarrow> body_preview t = take 1000 t @ ''...'') \<and>
   (t \<noteq> [] \<and> length t \<le> 1000 \<longrightarrow> body_preview t = t) \<and>
   (t = [] \<longrightarrow> body_preview t = ''(empty)'') \<and>
   (t \<noteq> [] \<longrightarrow> take 1000 (body_preview t) = take 1000 t) \<and>
   length (body_preview t) \<le> 1003"
proof -
  have a: "net (length (sent st)) (the_request cd ex d tmo) = Inr resp \<and> \<not> ok resp \<longrightarrow>
      fst (langgraph_NoSSL_export cd net ex d tmo st) = Inr resp \<and>
      new_records st (snd (langgraph_NoSSL_export cd net ex d tmo st)) =
        [\<lparr>level = ERROR,
          fmt = ''OTLP trace export HTTP error: status=%s reason=%s url=%s request_content_length=%s response_body=%s'',
          args = [ArgInt (status_code resp), ArgStr (reason resp), ArgStr (endpoint ex),
                  ArgInt (int (length (compressed cd ex d))),
                  ArgStr (body_preview (text_of resp))],
          exc_info = False\<rparr>] \<and>
      fst (NoSSL_export cd net ex d tmo st) = Inr resp \<and>
      new_records st (snd (NoSSL_export cd net ex d tmo st)) = []"
  proof
    assume h: "net (length (sent st)) (the_request cd ex d tmo) = Inr resp \<and> \<not> ok resp"
    then have single: "\<not> (\<exists>e. net (length (sent st)) (the_request cd ex d tmo) = Inl e
                        \<and> is_ConnectionError e)"
      by simp
    have r: "fst (NoSSL_export cd net ex d tmo st) = Inr resp"
      using h single by (simp add: NoSSL_export_single)
    have q: "new_records st (snd (NoSSL_export cd net ex d tmo st)) = []"
      by (simp add: new_records_def NoSSL_export_logged)
    have l: "fst (langgraph_NoSSL_export cd net ex d tmo st) = Inr resp"
      using h by (simp add: langgraph_NoSSL_export_fst)
    from h r q l langgraph_http_failure [where net = net and st = st and cd = cd and ex = ex
        and d = d and tmo = tmo and resp = resp]
    show "fst (langgraph_NoSSL_export cd net ex d tmo st) = Inr resp \<and>
      new_records st (snd (langgraph_NoSSL_export cd net ex d tmo st)) =
        [\<lparr>level = ERROR,
          fmt = ''OTLP trace export HTTP error: status=%s reason=%s url=%s request_content_length=%s response_body=%s'',
          args = [ArgInt (status_code resp), ArgStr (reason resp), ArgStr (endpoint ex),
                  ArgInt (int (length (compressed cd ex d))),
                  ArgStr (body_preview (text_of resp))],
          exc_info = False\<rparr>] \<and>
      fst (NoSSL_export cd net ex d tmo st) = Inr resp \<and>
      new_records st (snd (NoSSL_export cd net ex d tmo st)) = []"
      by blast
  qed
  have b: "(length t > 1000 \<longrightarrow> body_preview t = take 1000 t @ ''...'') \<and>
   (t \<noteq> [] \<and> length t \<le> 1000 \<longrightarrow> body_preview t = t) \<and>
   (t = [] \<longrightarrow> body_preview t = ''(empty)'')"
    by (auto simp: body_preview_def)
  have c: "t \<noteq> [] \<longrightarrow> take 1000 (body_preview t) = take 1000 t"
    by (simp add: body_preview_prefix)
  from a b c body_preview_length [of t] show ?thesis by blast
qed

theorem http_failure_is_returned_witness:
  "always (Inr unavailable) (length (sent no_traffic))
       (the_request framing local_exporter [1, 2, 3] None) = Inr unavailable \<and>
   \<not> ok unavailable \<and>
   fst (langgraph_NoSSL_export framing (always (Inr unavailable))
          local_exporter [1, 2, 3] None no_traffic) = Inr unavailable \<and>
   map args (new_records no_traffic
      (snd (langgraph_NoSSL_export framing (always (Inr unavailable))
          local_exporter [1, 2, 3] None no_traffic))) =
     [[ArgInt 503, ArgStr ''Service Unavailable'', ArgStr ''http://localhost:4318/v1/traces'',
       ArgInt 3, ArgStr (replicate 1000 (CHR ''x'') @ ''...'')]] \<and>
   fst (NoSSL_export framing (always (Inr unavailable))
          local_exporter [1, 2, 3] None no_traffic) = Inr unavailable \<and>
   length (text_of unavailable) = 1001 \<and>
   body_preview (text_of unavailable) = replicate 1000 (CHR ''x'') @ ''...'' \<and>
   body_preview ''busy'' = ''busy'' \<and>
   body_preview '''' = ''(empty)''"
  using http_failure_is_returned
          [where net = "always (Inr unavailable)" and cd = framing and ex = local_exporter
            and d = "[1, 2, 3]" and tmo = None and st = no_traffic
            and resp = unavailable and t = "text_of unavailable"]
        http_failure_is_returned
          [where net = "always (Inr unavailable)" and cd = framing and ex = local_exporter
            and d = "[1, 2, 3]" and tmo = None and st = no_traffic
            and resp = unavailable and t = "''busy''"]
        http_failure_is_returned
          [where net = "always (Inr unavailable)" and cd = framing and ex = local_exporter
            and d = "[1, 2, 3]" and tmo = None and st = no_traffic
            and resp = unavailable and t = "''''"]
  by (simp add: always_def unavailable_def local_exporter_simps compressed_def)

text \<open>
  An HTTP 503 with a body of 1001 characters: the logged preview has 1003 characters,
  and the exporter of otel_llm_log.py logs nothing.
\<close>

theorem http_failure_is_returned_counterexample:
  "\<not> ok unavailable \<and>
   map args (new_records no_traffic
      (snd (langgraph_NoSSL_export framing (always (Inr unavailable))
          local_exporter [1, 2, 3] None no_traffic))) =
     [[ArgInt 503, ArgStr ''Service Unavailable'', ArgStr ''http://localhost:4318/v1/traces'',
       ArgInt 3, ArgStr (replicate 1000 (CHR ''x'') @ ''...'')]] \<and>
   length (replicate 1000 (CHR ''x'') @ ''...'') = 1003 \<and>
   new_records no_traffic
      (snd (NoSSL_export framing (always (Inr unavailable))
          local_exporter [1, 2, 3] None no_traffic)) = []"
  by (simp add: langgraph_NoSSL_export_def NoSSL_export_def post_def new_records_def
        logger_error_def always_def no_traffic_def unavailable_def Let_def the_request_def
        compressed_def body_preview_def local_exporter_simps)

lemma new_requests_cases:
  "rq \<in> set (new_requests st (snd (NoSSL_export cd net ex d tmo st)))
         \<union> set (new_requests st (snd (langgraph_NoSSL_export cd net ex d tmo st)))
   \<Longrightarrow> rq = the_request cd ex d tmo"
  by (auto simp: new_requests_NoSSL_export new_requests_langgraph split: if_splits)

lemma new_requests_nonempty:
  "new_requests st (snd (NoSSL_export cd net ex d tmo st)) \<noteq> [] \<and>
   new_requests st (snd (langgraph_NoSSL_export cd net ex d tmo st)) \<noteq> []"
  by (simp add: new_requests_NoSSL_export new_requests_langgraph)

text \<open>
  Claim C7.  \<open>gunzip\<close> and \<open>inflate\<close> stand for the decompressors of a collector; they
  undo the library's two compressors.  Every request of a send, the repeated one too,
  carries the serialized data unchanged when no compression is configured, the gzip
  container of the serialized data, which decompresses to it, with gzip, and the zlib
  compression of the serialized data, which decompresses to it, with deflate.
\<close>

theorem compression_round_trip:
  assumes gz: "\<forall>b. gunzip (gzip_write cd b) = Some b"
    and zl: "\<forall>b. inflate (zlib_compress cd b) = Some b"
  shows "(\<forall>rq \<in> set (new_requests st (snd (NoSSL_export cd net ex d tmo st)))
               \<union> set (new_requests st (snd (langgraph_NoSSL_export cd net ex d tmo st))).
            (case compression ex of
               NoCompression \<Rightarrow> data rq = d
             | Gzip \<Rightarrow> data rq = gzip_write cd d \<and> gunzip (data rq) = Some d
             | Deflate \<Rightarrow> data rq = zlib_compress cd d \<and> inflate (data rq) = Some d)) \<and>
         new_requests st (snd (NoSSL_export cd net ex d tmo st)) \<noteq> [] \<and>
         new_requests st (snd (langgraph_NoSSL_export cd net ex d tmo st)) \<noteq> []"
proof -
  have payload: "case compression ex of
               NoCompression \<Rightarrow> data (the_request cd ex d tmo) = d
             | Gzip \<Rightarrow> data (the_request cd ex d tmo) = gzip_write cd d
                        \<and> gunzip (data (the_request cd ex d tmo)) = Some d
             | Deflate \<Rightarrow> data (the_request cd ex d tmo) = zlib_compress cd d
                        \<and> inflate (data (the_request cd ex d tmo)) = Some d"
    using gz zl
    by (cases "compression ex") (simp_all add: the_request_def compressed_def)
  have "\<forall>rq \<in> set (new_requests st (snd (NoSSL_export cd net ex d tmo st)))
               \<union> set (new_requests st (snd (langgraph_NoSSL_export cd net ex d tmo st))).
            (case compression ex of
               NoCompression \<Rightarrow> data rq = d
             | Gzip \<Rightarrow> data rq = gzip_write cd d \<and> gunzip (data rq) = Some d
             | Deflate \<Rightarrow> data rq = zlib_compress cd d \<and> inflate (data rq) = Some d)"
  proof
    fix rq
    assume "rq \<in> set (new_requests st (snd (NoSSL_export cd net ex d tmo st)))
               \<union> set (new_requests st (snd (langgraph_NoSSL_export cd net ex d tmo st)))"
    then have eq: "rq = the_request cd ex d tmo" by (rule new_requests_cases)
    show "case compression ex of
               NoCompression \<Rightarrow> data rq = d
             | Gzip \<Rightarrow> data rq = gzip_write cd d \<and> gunzip (data rq) = Some d
             | Deflate \<Rightarrow> data rq = zlib_compress cd d \<and> inflate (data rq) = Some d"
      unfolding eq by (rule payload)
  qed
  with new_requests_nonempty [of st cd net ex d tmo] show ?thesis by blast
qed

theorem compression_round_trip_witness:
  "(\<forall>b. unframe_gzip (gzip_write framing b) = Some b) \<and>
   (\<forall>b. unframe_zlib (zlib_compress framing b) = Some b) \<and>
   map data (new_requests no_traffic
      (snd (NoSSL_export framing (always (Inl connection_refused))
              (local_exporter\<lparr>compression := Gzip\<rparr>) [1, 2, 3] None no_traffic)))
     = [[0x1f, 0x8b, 1, 2, 3], [0x1f, 0x8b, 1, 2, 3]] \<and>
   unframe_gzip [0x1f, 0x8b, 1, 2, 3] = Some [1, 2, 3] \<and>
   map data (new_requests no_traffic
      (snd (langgraph_NoSSL_export framing (always (Inr accepted))
              (local_exporter\<lparr>compression := Deflate\<rparr>) [1, 2, 3] None no_traffic)))
     = [[0x78, 1, 2, 3]] \<and>
   unframe_zlib [0x78, 1, 2, 3] = Some [1, 2, 3] \<and>
   map data (new_requests no_traffic
      (snd (NoSSL_export framing (always (Inr accepted))
              local_exporter [1, 2, 3] None no_traffic)))
     = [[1, 2, 3]]"
proof -
  have gz: "\<forall>b. unframe_gzip (gzip_write framing b) = Some b"
    by (simp add: unframe_gzip_def framing_def)
  have zl: "\<forall>b. unframe_zlib (zlib_compress framing b) = Some b"
    by (simp add: unframe_zlib_def framing_def)
  note rt = compression_round_trip [OF gz zl]
  show ?thesis
    using gz zl
      rt [where st = no_traffic and net = "always (Inl connection_refused)"
            and ex = "local_exporter\<lparr>compression := Gzip\<rparr>" and d = "[1, 2, 3]" and tmo = None]
      rt [where st = no_traffic and net = "always (Inr accepted)"
            and ex = "local_exporter\<lparr>compression := Deflate\<rparr>" and d = "[1, 2, 3]" and tmo = None]
      rt [where st = no_traffic and net = "always (Inr accepted)"
            and ex = local_exporter and d = "[1, 2, 3]" and tmo = None]
    by (simp add: new_requests_NoSSL_export new_requests_langgraph always_def
          connection_refused_def the_request_def compressed_def framing_def
          unframe_gzip_def unframe_zlib_def local_exporter_simps)
qed

text \<open>
  Claim C8, as the code has it.  Every request of either exporter, the repeated one too,
  is posted with \<open>verify=False\<close>, whatever the endpoint, headers, compression, timeout
  and client certificate of the exporter: the exporter has no strict mode and no setting
  that selects one.  Verification is given up by building the exporter with
  \<open>create_otlp_exporter_no_ssl\<close>.
\<close>

theorem verification_always_disabled:
  "(\<forall>rq \<in> set (new_requests st (snd (NoSSL_export cd net ex d tmo st)))
           \<union> set (new_requests st (snd (langgraph_NoSSL_export cd net ex d tmo st))).
      \<not> verify rq) \<and>
   new_requests st (snd (NoSSL_export cd net ex d tmo st)) \<noteq> [] \<and>
   new_requests st (snd (langgraph_NoSSL_export cd net ex d tmo st)) \<noteq> [] \<and>
   \<not> verify (the_request cd (create_otlp_exporter_no_ssl lib ep hs) d tmo)"
proof -
  have "\<forall>rq \<in> set (new_requests st (snd (NoSSL_export cd net ex d tmo st)))
           \<union> set (new_requests st (snd (langgraph_NoSSL_export cd net ex d tmo st))).
      \<not> verify rq"
  proof
    fix rq
    assume "rq \<in> set (new_requests st (snd (NoSSL_export cd net ex d tmo st)))
           \<union> set (new_requests st (snd (langgraph_NoSSL_export cd net ex d tmo st)))"
    then have "rq = the_request cd ex d tmo" by (rule new_requests_cases)
    then show "\<not> verify rq" by (simp add: the_request_def)
  qed
  moreover have "\<not> verify (the_request cd (create_otlp_exporter_no_ssl lib ep hs) d tmo)"
    by (simp add: the_request_def)
  ultimately show ?thesis
    using new_requests_nonempty [of st cd net ex d tmo] by blast
qed

theorem verification_always_disabled_witness:
  "map verify (new_requests no_traffic
      (snd (NoSSL_export framing (always (Inl connection_refused))
              (create_otlp_exporter_no_ssl
                 \<lparr>compression = Gzip, default_timeout = 5, client_cert = Some ''client.pem''\<rparr>
                 ''https://collector.example:4318/v1/traces''
                 (Some [''authorization'' \<mapsto> ''Bearer t'']))
              [1, 2, 3] (Some 3) no_traffic)))
     = [False, False] \<and>
   map verify (new_requests no_traffic
      (snd (langgraph_NoSSL_export framing (always (Inr accepted))
              (create_otlp_exporter_no_ssl
                 \<lparr>compression = Gzip, default_timeout = 5, client_cert = Some ''client.pem''\<rparr>
                 ''https://collector.example:4318/v1/traces''
                 (Some [''authorization'' \<mapsto> ''Bearer t'']))
              [1, 2, 3] (Some 3) no_traffic)))
     = [False]"
  using verification_always_disabled
          [where st = no_traffic and net = "always (Inl connection_refused)" and cd = framing
             and ex = "create_otlp_exporter_no_ssl
                 \<lparr>compression = Gzip, default_timeout = 5, client_cert = Some ''client.pem''\<rparr>
                 ''https://collector.example:4318/v1/traces''
                 (Some [''authorization'' \<mapsto> ''Bearer t''])"
             and d = "[1, 2, 3]" and tmo = "Some 3"]
  by (simp add: new_requests_NoSSL_export new_requests_langgraph always_def
        connection_refused_def the_request_def)

text \<open>
  An exporter built from an endpoint alone, with the library's settings and no headers,
  posts without certificate verification.
\<close>

theorem verification_always_disabled_counterexample:
  "session_headers (create_otlp_exporter_no_ssl library_settings ''http://dummy'' None) = None \<and>
   map verify (new_requests no_traffic
      (snd (NoSSL_export framing (always (Inr accepted))
              (create_otlp_exporter_no_ssl library_settings ''http://dummy'' None)
              [1, 2, 3] None no_traffic)))
     = [False] \<and>
   map verify (new_requests no_traffic
      (snd (langgraph_NoSSL_export framing (always (Inr accepted))
              (create_otlp_exporter_no_ssl library_settings ''http://dummy'' None)
              [1, 2, 3] None no_traffic)))
     = [False]"
  by (simp add: NoSSL_export_def langgraph_NoSSL_export_def post_def new_requests_def
        always_def no_traffic_def accepted_def the_request_def Let_def
        create_otlp_exporter_no_ssl_def or_None_def)

end
